theory Spec2Isabelle
  imports Complex_Main
begin

section \<open>JavaScript strings\<close>

text \<open>
  A JavaScript string is a sequence of UTF-16 code units. It is modelled as a HOL
  \<open>string\<close> whose characters stand for the code units 0..255 (ASCII and Latin-1);
  code units above 255 are outside the model. The status of a response is an HTTP status
  code (an unsigned short in the Fetch standard), which a template literal renders in plain
  decimal (\<open>nat_digits\<close>).
\<close>

definition is_ascii_alnum :: "char \<Rightarrow> bool" where
  \<comment> \<open>the class \<open>[a-z0-9]\<close> under the flag \<open>i\<close> (no flag \<open>u\<close>): ASCII letters and digits\<close>
  "is_ascii_alnum c = (let n = (of_char c :: nat) in
     (48 \<le> n \<and> n \<le> 57) \<or> (65 \<le> n \<and> n \<le> 90) \<or> (97 \<le> n \<and> n \<le> 122))"

definition is_white_space :: "char \<Rightarrow> bool" where
  \<comment> \<open>WhiteSpace and LineTerminator of ECMAScript below 256: TAB, LF, VT, FF, CR, SP, NBSP\<close>
  "is_white_space c = (let n = (of_char c :: nat) in (9 \<le> n \<and> n \<le> 13) \<or> n = 32 \<or> n = 160)"

definition trim :: "string \<Rightarrow> string" where
  \<comment> \<open>\<open>String.prototype.trim\<close>\<close>
  "trim s = rev (dropWhile is_white_space (rev (dropWhile is_white_space s)))"

definition toLowerCase_unit :: "char \<Rightarrow> char" where
  "toLowerCase_unit c = (let n = (of_char c :: nat) in
     if (65 \<le> n \<and> n \<le> 90) \<or> (192 \<le> n \<and> n \<le> 222 \<and> n \<noteq> 215)
     then char_of (n + 32) else c)"

definition toLowerCase :: "string \<Rightarrow> string" where
  \<comment> \<open>\<open>String.prototype.toLowerCase\<close> on the code units below 256\<close>
  "toLowerCase s = map toLowerCase_unit s"

fun nat_digits :: "nat \<Rightarrow> string" where
  "nat_digits n =
     (if n < 10 then [char_of (48 + n)]
      else nat_digits (n div 10) @ [char_of (48 + n mod 10)])"

declare nat_digits.simps [simp del]

function int_digits :: "int \<Rightarrow> string" where
  \<comment> \<open>the decimal digits of an integer that is not negative\<close>
  "int_digits n =
     (if n < 10 then [char_of (48 + n)]
      else int_digits (n div 10) @ [char_of (48 + n mod 10)])"
  by pat_completeness auto
termination
  by (relation "measure nat") auto

declare int_digits.simps [simp del]

fun join :: "string \<Rightarrow> string list \<Rightarrow> string" where
  \<comment> \<open>\<open>Array.prototype.join\<close> on strings\<close>
  "join sep [] = []"
| "join sep [x] = x"
| "join sep (x # y # ys) = x @ sep @ join sep (y # ys)"

section \<open>JavaScript numbers\<close>

text \<open>
  A JavaScript number is an IEEE 754 double: a finite double is the rational it denotes
  (\<open>Fin\<close>), and there are the two infinities and NaN. The two zeros are one value: the program
  never divides, and \<open>String\<close>, \<open>JSON.stringify\<close>, \<open>Boolean\<close> and \<open>+\<close> do not tell them apart.
  \<open>fl r\<close> is the double nearest to the rational \<open>r\<close>, ties going to the even significand, and
  \<open>num_add\<close> is the addition of doubles. \<open>Number_toString\<close> is Number::toString of ECMA-262
  (6.1.6.1.20) for radix 10: the fewest digits \<open>s\<close> with \<open>s * 10 ^ (n - k)\<close> rounding to the number.
\<close>

datatype number = Fin rat | PosInf | NegInf | NaN

instantiation number :: "{zero, one}"
begin

definition zero_number :: number where
  "zero_number = Fin 0"

definition one_number :: number where
  "one_number = Fin 1"

instance ..

end

definition pow2 :: "int \<Rightarrow> rat" where
  "pow2 e = (if 0 \<le> e then 2 ^ nat e else 1 / 2 ^ nat (- e))"

definition pow10 :: "int \<Rightarrow> rat" where
  "pow10 e = (if 0 \<le> e then 10 ^ nat e else 1 / 10 ^ nat (- e))"

function digits_in :: "int \<Rightarrow> int \<Rightarrow> nat" where
  \<comment> \<open>the number of digits of \<open>n\<close> in base \<open>b\<close> (0 for \<open>n \<le> 0\<close>)\<close>
  "digits_in b n = (if n \<le> 0 \<or> b < 2 then 0 else Suc (digits_in b (n div b)))"
  by pat_completeness auto
termination
  by (relation "measure (\<lambda>(b, n). nat n)") (auto simp: int_div_less_self)

declare digits_in.simps [simp del]

definition ilog :: "int \<Rightarrow> rat \<Rightarrow> int" where
  \<comment> \<open>\<open>floor (log b r)\<close> for \<open>0 < r\<close> and \<open>2 \<le> b\<close>\<close>
  "ilog b r =
     (if 1 \<le> r then int (digits_in b \<lfloor>r\<rfloor>) - 1
      else let d = int (digits_in b \<lfloor>1 / r\<rfloor>)
           in if r * of_int b ^ nat (d - 1) = 1 then - (d - 1) else - d)"

definition round_half_even :: "rat \<Rightarrow> int" where
  "round_half_even x =
     (let f = \<lfloor>x\<rfloor>; d = x - of_int f
      in if d < 1 / 2 then f else if 1 / 2 < d then f + 1 else if even f then f else f + 1)"

definition fl :: "rat \<Rightarrow> number" where
  \<comment> \<open>53 bits of significand, exponents from -1074, overflow to an infinity from \<open>2 ^ 1024\<close>\<close>
  "fl r =
     (if r = 0 then Fin 0
      else let a = \<bar>r\<bar>;
               e = max (ilog 2 a - 52) (- 1074);
               v = of_int (round_half_even (a / pow2 e)) * pow2 e
           in if pow2 1024 \<le> v then (if 0 < r then PosInf else NegInf)
              else Fin (if 0 < r then v else - v))"

fun num_add :: "number \<Rightarrow> number \<Rightarrow> number" where
  "num_add (Fin a) (Fin b) = fl (a + b)"
| "num_add NaN y = NaN"
| "num_add x NaN = NaN"
| "num_add PosInf NegInf = NaN"
| "num_add NegInf PosInf = NaN"
| "num_add PosInf y = PosInf"
| "num_add NegInf y = NegInf"
| "num_add x PosInf = PosInf"
| "num_add x NegInf = NegInf"

definition digits_denote :: "rat \<Rightarrow> nat \<Rightarrow> int \<Rightarrow> int \<Rightarrow> bool" where
  \<comment> \<open>\<open>s\<close> has \<open>k\<close> digits and \<open>s * 10 ^ (n - k)\<close> rounds to \<open>r\<close>\<close>
  "digits_denote r k n s =
     (10 ^ (k - 1) \<le> s \<and> s < 10 ^ k \<and> fl (of_int s * pow10 (n - int k)) = Fin r)"

definition digit_candidates :: "rat \<Rightarrow> nat \<Rightarrow> (int \<times> int) list" where
  \<comment> \<open>the pairs \<open>(n, s)\<close> with \<open>k\<close> digits that denote \<open>r\<close>\<close>
  "digit_candidates r k =
     (let n0 = ilog 10 r + 1
      in filter (\<lambda>(n, s). digits_denote r k n s)
           (concat (map (\<lambda>n. [(n, \<lfloor>r / pow10 (n - int k)\<rfloor>),
                                 (n, \<lfloor>r / pow10 (n - int k)\<rfloor> + 1)])
                        [n0, n0 + 1])))"

fun closest :: "rat \<Rightarrow> nat \<Rightarrow> (int \<times> int) \<Rightarrow> (int \<times> int) list \<Rightarrow> int \<times> int" where
  \<comment> \<open>the candidate nearest to \<open>r\<close>, the even one of two at the same distance\<close>
  "closest r k best [] = best"
| "closest r k (n, s) ((n', s') # cs) =
     (let d = \<bar>of_int s * pow10 (n - int k) - r\<bar>; d' = \<bar>of_int s' * pow10 (n' - int k) - r\<bar>
      in if d' < d \<or> (d' = d \<and> even s' \<and> odd s) then closest r k (n', s') cs
         else closest r k (n, s) cs)"

fun shortest :: "nat \<Rightarrow> nat \<Rightarrow> rat \<Rightarrow> nat \<times> int \<times> int" where
  \<comment> \<open>\<open>(k, n, s)\<close> with the fewest digits \<open>k\<close>; a double needs 17 digits at most\<close>
  "shortest 0 k r = (k, ilog 10 r + 1, round_half_even (r / pow10 (ilog 10 r + 1 - int k)))"
| "shortest (Suc fuel) k r =
     (case digit_candidates r k of
        [] \<Rightarrow> shortest fuel (Suc k) r
      | c # cs \<Rightarrow> (case closest r k c cs of (n, s) \<Rightarrow> (k, n, s)))"

definition positive_text :: "rat \<Rightarrow> string" where
  "positive_text r =
     (case shortest 20 1 r of (k, n, s) \<Rightarrow>
        let ds = int_digits s in
        if int k \<le> n \<and> n \<le> 21 then ds @ replicate (nat (n - int k)) CHR ''0''
        else if 0 < n \<and> n \<le> 21 then take (nat n) ds @ ''.'' @ drop (nat n) ds
        else if - 6 < n \<and> n \<le> 0 then ''0.'' @ replicate (nat (- n)) CHR ''0'' @ ds
        else (if k = 1 then ds else take 1 ds @ ''.'' @ drop 1 ds)
             @ ''e'' @ (if 0 < n - 1 then ''+'' else ''-'') @ int_digits \<bar>n - 1\<bar>)"

fun Number_toString :: "number \<Rightarrow> string" where
  "Number_toString NaN = ''NaN''"
| "Number_toString PosInf = ''Infinity''"
| "Number_toString NegInf = ''-Infinity''"
| "Number_toString (Fin r) =
     (if r = 0 then ''0'' else if r < 0 then ''-'' @ positive_text (- r) else positive_text r)"

section \<open>toDocId\<close>

text \<open>
  \<^verbatim>\<open>const toDocId = (name = "document") =>
  `doc-${name.replace(/\.[^/.]+$/, "").replace(/[^a-z0-9]+/gi, "-").toLowerCase()}`;\<close>

  \<open>replace_ext\<close> is \<open>.replace(/\.[^/.]+$/, "")\<close>: the regular expression is tried at each
  position from the left; it matches at a dot when the rest of the string is not empty and
  holds neither a slash nor a dot, and the match (which reaches the end of the string) is
  replaced by the empty string.

  \<open>replace_runs p rep\<close> is \<open>.replace(/C+/g, rep)\<close> for a character class \<open>C\<close> given as the
  predicate \<open>p\<close>: each match is a longest run of characters of the class.
\<close>

fun replace_ext :: "string \<Rightarrow> string" where
  "replace_ext [] = []"
| "replace_ext (c # cs) =
     (if c = CHR ''.'' \<and> cs \<noteq> [] \<and> list_all (\<lambda>d. d \<noteq> CHR ''/'' \<and> d \<noteq> CHR ''.'') cs
      then [] else c # replace_ext cs)"

function replace_runs :: "(char \<Rightarrow> bool) \<Rightarrow> string \<Rightarrow> string \<Rightarrow> string" where
  "replace_runs p rep [] = []"
| "replace_runs p rep (c # cs) =
     (if p c then rep @ replace_runs p rep (dropWhile p cs) else c # replace_runs p rep cs)"
  by pat_completeness auto
termination
  by (relation "measure (\<lambda>(p, rep, s). length s)")
     (auto simp: length_dropWhile_le less_Suc_eq_le)

definition toDocId :: "string option \<Rightarrow> string" where
  \<comment> \<open>\<open>None\<close> is the absent argument, which takes the default \<open>"document"\<close>\<close>
  "toDocId arg =
     (let name = (case arg of None \<Rightarrow> ''document'' | Some n \<Rightarrow> n)
      in ''doc-'' @ toLowerCase (replace_runs (\<lambda>c. \<not> is_ascii_alnum c) ''-'' (replace_ext name)))"

subsection \<open>The slug as the specification words it\<close>

text \<open>
  The extension of a name is what follows its last dot, when that is not empty and holds
  no slash. Collapsing reads the name once, writing a hyphen for the first character of a
  run of non-alphanumeric characters and nothing for the others of the run.
\<close>

definition strip_extension_spec :: "string \<Rightarrow> string" where
  "strip_extension_spec s =
     (let ext = rev (takeWhile (\<lambda>c. c \<noteq> CHR ''.'') (rev s))
      in if length ext < length s \<and> ext \<noteq> [] \<and> CHR ''/'' \<notin> set ext
         then take (length s - length ext - 1) s else s)"

fun collapse_spec :: "bool \<Rightarrow> string \<Rightarrow> string" where
  "collapse_spec in_run [] = []"
| "collapse_spec in_run (c # cs) =
     (if is_ascii_alnum c then c # collapse_spec False cs
      else if in_run then collapse_spec True cs
      else CHR ''-'' # collapse_spec True cs)"

definition slug_spec :: "string \<Rightarrow> string" where
  "slug_spec name = ''doc-'' @ toLowerCase (collapse_spec False (strip_extension_spec name))"

definition is_slug_char :: "char \<Rightarrow> bool" where
  \<comment> \<open>a lowercase letter, a digit or a hyphen\<close>
  "is_slug_char c = (let n = (of_char c :: nat) in
     (97 \<le> n \<and> n \<le> 122) \<or> (48 \<le> n \<and> n \<le> 57) \<or> n = 45)"

section \<open>JSON values and the coercions of JavaScript\<close>

text \<open>
  A JSON value as \<open>JSON.parse\<close> builds it. An object is the list of its own properties in
  the order JavaScript enumerates them; a property is looked up by \<open>map_of\<close>. The value
  \<open>undefined\<close> (an absent argument, a missing property) is \<open>None\<close> of \<open>json option\<close>.
\<close>

datatype json =
    JNull
  | JBool bool
  | JNum number
  | JStr string
  | JArr "json list"
  | JObj "(string \<times> json) list"

datatype js_error = Error string | TypeError string | SyntaxError string

text \<open>An exception is a value: the kind of the error and its \<open>message\<close>.\<close>

fun message :: "js_error \<Rightarrow> string" where
  "message (Error m) = m"
| "message (TypeError m) = m"
| "message (SyntaxError m) = m"

text \<open>
  \<open>truthy\<close> is \<open>Boolean(x)\<close>, the test of \<open>!x\<close>, \<open>x || y\<close> and \<open>.filter(Boolean)\<close>.
  \<open>member v k\<close> is \<open>v.k\<close>, which throws on \<open>null\<close>; \<open>opt_member v k\<close> is \<open>v?.k\<close>. The program
  reads the properties \<open>answer\<close>, \<open>output\<close>, \<open>message\<close>, \<open>text\<close>, \<open>result\<close> and \<open>data\<close> only, none of
  which a string, a number, a boolean or an array has.
\<close>

fun truthy :: "json option \<Rightarrow> bool" where
  "truthy None = False"
| "truthy (Some JNull) = False"
| "truthy (Some (JBool b)) = b"
| "truthy (Some (JNum n)) = (n \<noteq> 0 \<and> n \<noteq> NaN)"
| "truthy (Some (JStr s)) = (s \<noteq> [])"
| "truthy (Some (JArr xs)) = True"
| "truthy (Some (JObj kvs)) = True"

fun get_prop :: "json \<Rightarrow> string \<Rightarrow> json option" where
  "get_prop (JObj kvs) k = map_of kvs k"
| "get_prop v k = None"

fun member :: "json \<Rightarrow> string \<Rightarrow> js_error + json option" where
  "member JNull k =
     Inl (TypeError (''Cannot read properties of null (reading '' @ [CHR 0x27] @ k @ [CHR 0x27] @ '')''))"
| "member v k = Inr (get_prop v k)"

fun opt_member :: "json option \<Rightarrow> string \<Rightarrow> json option" where
  "opt_member None k = None"
| "opt_member (Some JNull) k = None"
| "opt_member (Some v) k = get_prop v k"

fun members :: "json \<Rightarrow> string list \<Rightarrow> js_error + json option list" where
  "members d [] = Inr []"
| "members d (k # ks) =
     (case member d k of
        Inl e \<Rightarrow> Inl e
      | Inr v \<Rightarrow> (case members d ks of Inl e \<Rightarrow> Inl e | Inr vs \<Rightarrow> Inr (v # vs)))"

text \<open>
  \<open>String_js v\<close> is \<open>String(v)\<close>. An array is joined with commas, a \<open>null\<close> element giving the
  empty string. An object is converted by OrdinaryToPrimitive (ECMA-262, 7.1.1.1): the
  method \<open>toString\<close> is looked up on the object; an object parsed from JSON that has an own
  property \<open>toString\<close> shadows \<open>Object.prototype.toString\<close> with a value that is not callable,
  \<open>valueOf\<close> then returns the object itself, and the conversion throws a TypeError.
\<close>

fun String_js :: "json \<Rightarrow> js_error + string"
  and join_elements :: "json list \<Rightarrow> js_error + string"
where
  "String_js JNull = Inr ''null''"
| "String_js (JBool b) = Inr (if b then ''true'' else ''false'')"
| "String_js (JNum n) = Inr (Number_toString n)"
| "String_js (JStr s) = Inr s"
| "String_js (JArr xs) = join_elements xs"
| "String_js (JObj kvs) =
     (if map_of kvs ''toString'' \<noteq> None
      then Inl (TypeError ''Cannot convert object to primitive value'')
      else Inr ''[object Object]'')"
| "join_elements [] = Inr []"
| "join_elements (x # xs) =
     (case (if x = JNull then Inr [] else String_js x) of
        Inl e \<Rightarrow> Inl e
      | Inr s \<Rightarrow>
          if xs = [] then Inr s
          else (case join_elements xs of Inl e \<Rightarrow> Inl e | Inr t \<Rightarrow> Inr (s @ '','' @ t)))"

text \<open>
  \<open>JSON_stringify v space\<close> is \<open>JSON.stringify(v, null, space)\<close>, after SerializeJSONProperty,
  SerializeJSONObject, SerializeJSONArray and QuoteJSONString of ECMA-262 (25.5.2). It throws
  on a cyclic structure or a BigInt only, which no value of type \<open>json\<close> is.
\<close>

definition hex_digit :: "nat \<Rightarrow> char" where
  "hex_digit n = (if n < 10 then char_of (48 + n) else char_of (87 + n))"

definition quote_unit :: "char \<Rightarrow> string" where
  "quote_unit c = (let n = (of_char c :: nat) in
     if n = 8 then [CHR 0x5C, CHR ''b'']
     else if n = 9 then [CHR 0x5C, CHR ''t'']
     else if n = 10 then [CHR 0x5C, CHR ''n'']
     else if n = 12 then [CHR 0x5C, CHR ''f'']
     else if n = 13 then [CHR 0x5C, CHR ''r'']
     else if n = 34 then [CHR 0x5C, CHR 0x22]
     else if n = 92 then [CHR 0x5C, CHR 0x5C]
     else if n < 32 then [CHR 0x5C, CHR ''u'', CHR ''0'', CHR ''0'', hex_digit (n div 16), hex_digit (n mod 16)]
     else [c])"

definition QuoteJSONString :: "string \<Rightarrow> string" where
  "QuoteJSONString s = [CHR 0x22] @ concat (map quote_unit s) @ [CHR 0x22]"

fun SerializeJSONProperty :: "string \<Rightarrow> string \<Rightarrow> json \<Rightarrow> string"
  and SerializeJSONArray :: "string \<Rightarrow> string \<Rightarrow> json list \<Rightarrow> string list"
  and SerializeJSONObject :: "string \<Rightarrow> string \<Rightarrow> (string \<times> json) list \<Rightarrow> string list"
where
  "SerializeJSONProperty gap indent JNull = ''null''"
| "SerializeJSONProperty gap indent (JBool b) = (if b then ''true'' else ''false'')"
| "SerializeJSONProperty gap indent (JNum n) =
     (case n of Fin r \<Rightarrow> Number_toString n | _ \<Rightarrow> ''null'')"
| "SerializeJSONProperty gap indent (JStr s) = QuoteJSONString s"
| "SerializeJSONProperty gap indent (JArr xs) =
     (if xs = [] then ''[]''
      else if gap = [] then ''['' @ join '','' (SerializeJSONArray gap indent xs) @ '']''
      else ''['' @ [CHR 0x0A] @ (indent @ gap)
           @ join ('','' @ [CHR 0x0A] @ (indent @ gap)) (SerializeJSONArray gap (indent @ gap) xs)
           @ [CHR 0x0A] @ indent @ '']'')"
| "SerializeJSONProperty gap indent (JObj kvs) =
     (if kvs = [] then ''{}''
      else if gap = [] then ''{'' @ join '','' (SerializeJSONObject gap indent kvs) @ ''}''
      else ''{'' @ [CHR 0x0A] @ (indent @ gap)
           @ join ('','' @ [CHR 0x0A] @ (indent @ gap)) (SerializeJSONObject gap (indent @ gap) kvs)
           @ [CHR 0x0A] @ indent @ ''}'')"
| "SerializeJSONArray gap indent [] = []"
| "SerializeJSONArray gap indent (x # xs) =
     SerializeJSONProperty gap indent x # SerializeJSONArray gap indent xs"
| "SerializeJSONObject gap indent [] = []"
| "SerializeJSONObject gap indent ((k, v) # kvs) =
     (QuoteJSONString k @ (if gap = [] then '':'' else '': '') @ SerializeJSONProperty gap indent v)
       # SerializeJSONObject gap indent kvs"

definition JSON_stringify :: "json \<Rightarrow> nat \<Rightarrow> js_error + string" where
  "JSON_stringify v space = Inr (SerializeJSONProperty (replicate (min space 10) CHR '' '') [] v)"

section \<open>getBestText\<close>

text \<open>
  \<^verbatim>\<open>function getBestText(data) {
  if (!data) return "";
  if (typeof data === "string") return data;
  const cands = [data.answer, data.output, data.message, data.text, data.result,
    data?.data?.answer, data?.data?.output, data?.data?.message].filter(Boolean);
  if (cands.length) return String(cands[0]);
  try { return JSON.stringify(data, null, 2); } catch (_) { return String(data); }
}\<close>
  \<open>candidates\<close> is the array \<open>cands\<close>.
\<close>

definition candidates :: "json \<Rightarrow> js_error + json option list" where
  "candidates data =
     (case members data [''answer'', ''output'', ''message'', ''text'', ''result''] of
        Inl e \<Rightarrow> Inl e
      | Inr tops \<Rightarrow>
          Inr (filter truthy
                 (tops @ [opt_member (opt_member (Some data) ''data'') ''answer'',
                          opt_member (opt_member (Some data) ''data'') ''output'',
                          opt_member (opt_member (Some data) ''data'') ''message''])))"

definition getBestText :: "json option \<Rightarrow> js_error + string" where
  "getBestText arg =
     (case arg of
        None \<Rightarrow> Inr []
      | Some data \<Rightarrow>
          if \<not> truthy (Some data) then Inr []
          else (case data of
             JStr s \<Rightarrow> Inr s
           | _ \<Rightarrow>
              (case candidates data of
                 Inl e \<Rightarrow> Inl e
               | Inr (c # cs) \<Rightarrow> (case c of None \<Rightarrow> Inr ''undefined'' | Some v \<Rightarrow> String_js v)
               | Inr [] \<Rightarrow>
                  (case JSON_stringify data 2 of
                     Inr s \<Rightarrow> Inr s
                   | Inl e \<Rightarrow> String_js data))))"

subsection \<open>The probing as the specification words it\<close>

text \<open>
  The fields are probed one after the other and the first value that is present and not
  empty (truthy) is taken. \<open>top_field k\<close> reads the field \<open>k\<close> of the value, \<open>nested_field k\<close> the
  field \<open>k\<close> one level under \<open>data\<close>.
\<close>

definition top_field :: "string \<Rightarrow> json \<Rightarrow> json option" where
  "top_field k d = get_prop d k"

definition nested_field :: "string \<Rightarrow> json \<Rightarrow> json option" where
  "nested_field k d = (case get_prop d ''data'' of None \<Rightarrow> None | Some inner \<Rightarrow> get_prop inner k)"

fun first_present :: "(json \<Rightarrow> json option) list \<Rightarrow> json \<Rightarrow> json option" where
  "first_present [] d = None"
| "first_present (p # ps) d = (if truthy (p d) then p d else first_present ps d)"

definition probes :: "(json \<Rightarrow> json option) list" where
  "probes = map top_field [''answer'', ''output'', ''message'', ''text'', ''result'']
          @ map nested_field [''answer'', ''output'', ''message'']"

definition remove_key :: "string \<Rightarrow> (string \<times> json) list \<Rightarrow> (string \<times> json) list" where
  \<comment> \<open>the object without its property \<open>k\<close>\<close>
  "remove_key k kvs = filter (\<lambda>p. fst p \<noteq> k) kvs"

fun no_own_toString :: "json \<Rightarrow> bool" where
  \<comment> \<open>no object inside the value has a property named \<open>toString\<close>\<close>
  "no_own_toString (JArr xs) = list_all no_own_toString xs"
| "no_own_toString (JObj kvs) =
     (map_of kvs ''toString'' = None \<and> list_all (\<lambda>p. no_own_toString (snd p)) kvs)"
| "no_own_toString v = True"

section \<open>The backend and the state of the application\<close>

text \<open>
  The four endpoints are the environment. A call either fails (\<open>fetch\<close> rejects, \<open>Inl\<close>) or
  gives a response with its \<open>ok\<close> flag, its status, the text of its body (\<open>res.text()\<close>) and what
  \<open>res.json()\<close> gives: a parsed body, or the error of the parser. The body of \<open>/upload\<close> has
  the type of the data model, each field possibly absent (an absent field and a \<open>null\<close> one
  behave alike under \<open>||\<close>); the body of \<open>/index\<close>, \<open>/ask\<close> and \<open>/chat\<close> is any JSON value.
  The calls a handler issues are returned as a list, in the order they are issued.

  The state is the state of the component. \<open>indexedCount\<close> is a JavaScript value: it starts as
  the number 0 and \<open>+\<close> makes it a number or a string. \<open>uncaught\<close> is the error thrown by a state
  updater while React applies it, which no \<open>catch\<close> of a handler sees and which unmounts the
  component; it is \<open>None\<close> as long as no updater has thrown.
\<close>

record blob =
  file_name :: string
  file_bytes :: string

record index_item =
  item_id :: string
  item_text :: "string option"
  meta_filename :: string
  meta_source :: string

record upload_reply =
  reply_text :: "string option"
  reply_filename :: "string option"

record 'a response =
  ok :: bool
  status :: nat
  body_text :: string
  body_json :: "js_error + 'a"

datatype call =
    PostUpload blob
  | PostIndex "index_item list"
  | PostAsk string "json option"
  | PostChat string string

record backend =
  upload_ep :: "blob \<Rightarrow> js_error + upload_reply response"
  index_ep :: "index_item list \<Rightarrow> js_error + json response"
  ask_ep :: "string \<Rightarrow> json option \<Rightarrow> js_error + json response"
  chat_ep :: "string \<Rightarrow> string \<Rightarrow> js_error + json response"

datatype mode = Pipeline | Chat

record app_state =
  dragOver :: bool
  selectedFile :: "blob option"
  uploading :: bool
  extracted :: string
  indexedCount :: json
  autoIndex :: bool
  lastFilename :: string
  mode :: mode
  question :: string
  answer :: string
  loadingAsk :: bool
  raw :: json
  uncaught :: "js_error option"

definition or_string :: "string option \<Rightarrow> string \<Rightarrow> string" where
  \<comment> \<open>\<open>x || d\<close> for a string \<open>x\<close> that may be absent: the empty string is falsy\<close>
  "or_string x d = (case x of None \<Rightarrow> d | Some s \<Rightarrow> if s = [] then d else s)"

definition or_value :: "json option \<Rightarrow> json \<Rightarrow> json" where
  \<comment> \<open>\<open>x || d\<close> for a value \<open>x\<close> that may be \<open>undefined\<close>\<close>
  "or_value x d = (case x of None \<Rightarrow> d | Some v \<Rightarrow> if truthy (Some v) then v else d)"

text \<open>
  \<open>js_plus a b\<close> is \<open>a + b\<close> (ECMA-262, 13.15.3). Both operands are made primitive: an array or
  an object by \<open>valueOf\<close>, which returns the object itself, and then by \<open>toString\<close>, as \<open>String\<close>
  does. When one of the two is a string, the texts are concatenated; otherwise the two are
  numbers (\<open>null\<close> is 0, \<open>false\<close> is 0, \<open>true\<close> is 1) and are added as doubles.
\<close>

fun ToPrimitive :: "json \<Rightarrow> js_error + json" where
  "ToPrimitive (JArr xs) = (case String_js (JArr xs) of Inl e \<Rightarrow> Inl e | Inr s \<Rightarrow> Inr (JStr s))"
| "ToPrimitive (JObj kvs) = (case String_js (JObj kvs) of Inl e \<Rightarrow> Inl e | Inr s \<Rightarrow> Inr (JStr s))"
| "ToPrimitive v = Inr v"

fun primitive_text :: "json \<Rightarrow> string" where
  \<comment> \<open>ToString of a primitive value\<close>
  "primitive_text v = (case String_js v of Inr s \<Rightarrow> s | Inl e \<Rightarrow> [])"

fun primitive_number :: "json \<Rightarrow> number" where
  \<comment> \<open>ToNumber of a primitive value that is not a string\<close>
  "primitive_number JNull = 0"
| "primitive_number (JBool b) = (if b then 1 else 0)"
| "primitive_number (JNum n) = n"
| "primitive_number v = NaN"

fun plus_primitive :: "json \<Rightarrow> json \<Rightarrow> json" where
  "plus_primitive (JStr s) y = JStr (s @ primitive_text y)"
| "plus_primitive x (JStr s) = JStr (primitive_text x @ s)"
| "plus_primitive x y = JNum (num_add (primitive_number x) (primitive_number y))"

definition js_plus :: "json \<Rightarrow> json \<Rightarrow> js_error + json" where
  "js_plus a b =
     (case ToPrimitive a of
        Inl e \<Rightarrow> Inl e
      | Inr pa \<Rightarrow> (case ToPrimitive b of Inl e \<Rightarrow> Inl e | Inr pb \<Rightarrow> Inr (plus_primitive pa pb)))"

definition warning_marker :: string where
  \<comment> \<open>the warning sign U+26A0 U+FE0F, written as its UTF-8 bytes, and a space\<close>
  "warning_marker = [CHR 0xE2, CHR 0x9A, CHR 0xA0, CHR 0xEF, CHR 0xB8, CHR 0x8F, CHR 0x20]"

section \<open>The gateway module\<close>

text \<open>
  \<^verbatim>\<open>export async function uploadFile(file) {
  const res = await fetch(`${API_URL}/upload`, { method: "POST", body: fd });
  if (!res.ok) throw new Error(await res.text());
  return res.json();
}\<close>
  and likewise \<open>indexItems\<close> and \<open>ask\<close>.
\<close>

definition uploadFile :: "backend \<Rightarrow> blob \<Rightarrow> (js_error + upload_reply) \<times> call list" where
  "uploadFile srv f =
     (case upload_ep srv f of
        Inl e \<Rightarrow> (Inl e, [PostUpload f])
      | Inr res \<Rightarrow>
          if \<not> ok res then (Inl (Error (body_text res)), [PostUpload f])
          else (body_json res, [PostUpload f]))"

definition indexItems :: "backend \<Rightarrow> index_item list \<Rightarrow> (js_error + json) \<times> call list" where
  "indexItems srv items =
     (case index_ep srv items of
        Inl e \<Rightarrow> (Inl e, [PostIndex items])
      | Inr res \<Rightarrow>
          if \<not> ok res then (Inl (Error (body_text res)), [PostIndex items])
          else (body_json res, [PostIndex items]))"

definition ask :: "backend \<Rightarrow> string \<Rightarrow> (js_error + json) \<times> call list" where
  "ask srv q =
     (case ask_ep srv q None of
        Inl e \<Rightarrow> (Inl e, [PostAsk q None])
      | Inr res \<Rightarrow>
          if \<not> ok res then (Inl (Error (body_text res)), [PostAsk q None])
          else (body_json res, [PostAsk q None]))"

section \<open>The upload handler\<close>

text \<open>
  \<open>fetch_upload\<close> is lines 74 to 76 of \<open>handleUpload\<close> (the call of \<open>/upload\<close>, the test of
  \<open>r.ok\<close>, \<open>r.json()\<close>) and \<open>fetch_index\<close> lines 90 to 96; \<open>index_items\<close> is \<open>body.items\<close>.
  \<open>index_updater j items\<close> is the updater \<open>(c) => c + (j.upserted || body.items.length)\<close> of
  line 97. \<open>setIndexedCount\<close> only queues it: React calls it after the handler, so what it
  throws (\<open>j.upserted\<close> on a \<open>null\<close> body, \<open>+\<close> on an object that cannot be made primitive) is not
  caught by the \<open>catch\<close> of the handler and goes to \<open>uncaught\<close>, the count staying as it was.
  \<open>handleUpload_try\<close> is the body of the \<open>try\<close> block: it returns the error thrown, if any, the
  state as the assignments before the throw left it, and the calls issued. \<open>handleUpload\<close>
  adds the guard, the resets before the block, the \<open>catch\<close> and the \<open>finally\<close>. A handler
  runs to its end on the state it is given; no other handler changes the state meanwhile.
\<close>

definition fetch_upload :: "backend \<Rightarrow> blob \<Rightarrow> js_error + upload_reply" where
  "fetch_upload srv f =
     (case upload_ep srv f of
        Inl e \<Rightarrow> Inl e
      | Inr r \<Rightarrow>
          if \<not> ok r then Inl (Error (''Upload failed: '' @ nat_digits (status r)))
          else body_json r)"

definition fetch_index :: "backend \<Rightarrow> index_item list \<Rightarrow> js_error + json" where
  "fetch_index srv items =
     (case index_ep srv items of
        Inl e \<Rightarrow> Inl e
      | Inr ix \<Rightarrow>
          if \<not> ok ix then Inl (Error (''Index failed: '' @ nat_digits (status ix)))
          else body_json ix)"

definition index_items :: "upload_reply \<Rightarrow> blob \<Rightarrow> index_item list" where
  "index_items data f =
     [\<lparr>item_id = toDocId (Some (or_string (reply_filename data) (file_name f))),
       item_text = reply_text data,
       meta_filename = or_string (reply_filename data) (file_name f),
       meta_source = ''upload''\<rparr>]"

definition index_updater :: "json \<Rightarrow> index_item list \<Rightarrow> json \<Rightarrow> js_error + json" where
  "index_updater j items c =
     (case member j ''upserted'' of
        Inl e \<Rightarrow> Inl e
      | Inr u \<Rightarrow> js_plus c (or_value u (JNum (Fin (of_nat (length items))))))"

definition handleUpload_try ::
  "backend \<Rightarrow> blob \<Rightarrow> app_state \<Rightarrow> js_error option \<times> app_state \<times> call list"
where
  "handleUpload_try srv f st =
     (case fetch_upload srv f of
        Inl e \<Rightarrow> (Some e, st, [PostUpload f])
      | Inr data \<Rightarrow>
          (let st1 = st\<lparr>extracted := or_string (reply_text data) [],
                          lastFilename := or_string (reply_filename data) (file_name f)\<rparr>
           in if autoIndex st \<and> trim (or_string (reply_text data) []) \<noteq> [] then
                (case fetch_index srv (index_items data f) of
                   Inl e \<Rightarrow> (Some e, st1, [PostUpload f, PostIndex (index_items data f)])
                 | Inr j \<Rightarrow>
                     (case index_updater j (index_items data f) (indexedCount st1) of
                        Inl e \<Rightarrow>
                          (None, st1\<lparr>uncaught := Some e\<rparr>,
                           [PostUpload f, PostIndex (index_items data f)])
                      | Inr c \<Rightarrow>
                          (None, st1\<lparr>indexedCount := c\<rparr>,
                           [PostUpload f, PostIndex (index_items data f)])))
              else (None, st1, [PostUpload f])))"

definition handleUpload :: "backend \<Rightarrow> app_state \<Rightarrow> app_state \<times> call list" where
  "handleUpload srv st =
     (case selectedFile st of
        None \<Rightarrow> (st, [])
      | Some f \<Rightarrow>
          (case handleUpload_try srv f
                  (st\<lparr>uploading := True, extracted := [], answer := [], raw := JNull\<rparr>) of
             (None, st', calls) \<Rightarrow> (st'\<lparr>uploading := False\<rparr>, calls)
           | (Some err, st', calls) \<Rightarrow>
               (st'\<lparr>extracted := warning_marker @ message err, uploading := False\<rparr>, calls)))"

section \<open>The ask handler\<close>

text \<open>
  \<open>fetch_answer\<close> is the call of \<open>/ask\<close> or \<open>/chat\<close> and \<open>r.json()\<close> of \<open>handleAsk\<close> (lines 114 to 119
  and 123 to 128), which do not read \<open>r.ok\<close>; \<open>ask_call\<close> is the request it sends.
\<close>

definition ask_call :: "mode \<Rightarrow> string \<Rightarrow> call" where
  "ask_call m q = (case m of Pipeline \<Rightarrow> PostAsk (trim q) (Some (JObj [])) | Chat \<Rightarrow> PostChat (trim q) [])"

definition fetch_answer :: "backend \<Rightarrow> mode \<Rightarrow> string \<Rightarrow> js_error + json" where
  "fetch_answer srv m q =
     (case (case m of Pipeline \<Rightarrow> ask_ep srv (trim q) (Some (JObj []))
                    | Chat \<Rightarrow> chat_ep srv (trim q) []) of
        Inl e \<Rightarrow> Inl e
      | Inr r \<Rightarrow> body_json r)"

definition handleAsk_try ::
  "backend \<Rightarrow> app_state \<Rightarrow> js_error option \<times> app_state \<times> call list"
where
  "handleAsk_try srv st =
     (case fetch_answer srv (mode st) (question st) of
        Inl e \<Rightarrow> (Some e, st, [ask_call (mode st) (question st)])
      | Inr j \<Rightarrow>
          (case getBestText (Some j) of
             Inl e \<Rightarrow> (Some e, st\<lparr>raw := j\<rparr>, [ask_call (mode st) (question st)])
           | Inr t \<Rightarrow> (None, st\<lparr>raw := j, answer := t\<rparr>, [ask_call (mode st) (question st)])))"

definition handleAsk :: "backend \<Rightarrow> app_state \<Rightarrow> app_state \<times> call list" where
  "handleAsk srv st =
     (if trim (question st) = [] then (st, [])
      else (case handleAsk_try srv
                   (st\<lparr>loadingAsk := True, answer := [], raw := JNull\<rparr>) of
              (None, st', calls) \<Rightarrow> (st'\<lparr>loadingAsk := False\<rparr>, calls)
            | (Some err, st', calls) \<Rightarrow>
                (st'\<lparr>answer := warning_marker @ message err, loadingAsk := False\<rparr>, calls)))"

section \<open>Sample inputs\<close>

definition report_pdf :: blob where
  "report_pdf = \<lparr>file_name = ''Report v1.pdf'', file_bytes = ''%PDF-1.7''\<rparr>"

definition session :: app_state where
  \<comment> \<open>a session with a file selected, three documents indexed and an earlier answer shown\<close>
  "session = \<lparr>dragOver = False, selectedFile = Some report_pdf, uploading = False,
               extracted = ''earlier text'', indexedCount = JNum (Fin 3), autoIndex = True,
               lastFilename = ''old.pdf'', mode = Pipeline, question = ''When?'',
               answer = ''earlier answer'', loadingAsk = False, raw = JNum (Fin 7),
               uncaught = None\<rparr>"

definition hello_reply :: "upload_reply response" where
  "hello_reply = \<lparr>ok = True, status = 200, body_text = [],
                   body_json = Inr \<lparr>reply_text = Some ''hello'', reply_filename = Some ''Report v1.pdf''\<rparr>\<rparr>"

definition blank_reply :: "upload_reply response" where
  "blank_reply = \<lparr>ok = True, status = 200, body_text = [],
                   body_json = Inr \<lparr>reply_text = Some ''  '', reply_filename = Some ''Report v1.pdf''\<rparr>\<rparr>"

definition upserted_body :: "number option \<Rightarrow> json" where
  \<comment> \<open>the body \<open>{"upserted": n}\<close>, or \<open>{}\<close> without the field\<close>
  "upserted_body n = (case n of None \<Rightarrow> JObj [] | Some u \<Rightarrow> JObj [(''upserted'', JNum u)])"

definition upserted_reply :: "number option \<Rightarrow> json response" where
  "upserted_reply n = \<lparr>ok = True, status = 200, body_text = [], body_json = Inr (upserted_body n)\<rparr>"

definition null_reply :: "json response" where
  \<comment> \<open>a response with status 200 whose body is the JSON text \<open>null\<close>\<close>
  "null_reply = \<lparr>ok = True, status = 200, body_text = ''null'', body_json = Inr JNull\<rparr>"

definition failure :: "'a response" where
  \<comment> \<open>a response with status 500 whose body is the text \<open>boom\<close>, which is not JSON\<close>
  "failure = \<lparr>ok = False, status = 500, body_text = ''boom'',
               body_json = Inl (SyntaxError ''Unexpected token b in JSON at position 0'')\<rparr>"

definition failure_json :: "json response" where
  \<comment> \<open>a response with status 500 whose body is the JSON text \<open>{"detail":"boom"}\<close>\<close>
  "failure_json = \<lparr>ok = False, status = 500,
               body_text = [CHR ''{'', CHR 0x22] @ ''detail'' @ [CHR 0x22, CHR '':'', CHR 0x22] @ ''boom''
                           @ [CHR 0x22, CHR ''}''],
               body_json = Inr (JObj [(''detail'', JStr ''boom'')])\<rparr>"

definition server :: "upload_reply response \<Rightarrow> json response \<Rightarrow> backend" where
  \<comment> \<open>a backend that answers \<open>/upload\<close> and \<open>/index\<close> as given and fails \<open>/ask\<close> and \<open>/chat\<close> with status 500\<close>
  "server up ix = \<lparr>upload_ep = (\<lambda>f. Inr up), index_ep = (\<lambda>items. Inr ix),
                     ask_ep = (\<lambda>q x. Inr failure_json), chat_ep = (\<lambda>m l. Inr failure_json)\<rparr>"

text \<open>The properties of the program follow; every definition is above this line.\<close>

section \<open>toDocId: the slug\<close>

lemma replace_ext_no_dot: "CHR ''.'' \<notin> set s \<Longrightarrow> replace_ext s = s"
  by (induction s) auto

lemma replace_ext_match:
  "zs \<noteq> [] \<Longrightarrow> CHR ''.'' \<notin> set zs \<Longrightarrow> CHR ''/'' \<notin> set zs \<Longrightarrow>
   replace_ext (ys @ CHR ''.'' # zs) = ys"
  by (induction ys) (auto simp: list_all_iff)

lemma replace_ext_no_match:
  "CHR ''.'' \<notin> set zs \<Longrightarrow> zs = [] \<or> CHR ''/'' \<in> set zs \<Longrightarrow>
   replace_ext (ys @ CHR ''.'' # zs) = ys @ CHR ''.'' # zs"
  by (induction ys) (auto simp: list_all_iff replace_ext_no_dot)

lemma takeWhile_no_dot:
  "CHR ''.'' \<notin> set zs \<Longrightarrow> takeWhile (\<lambda>c. c \<noteq> CHR ''.'') zs = zs"
  by (induction zs) auto

lemma ext_of_split:
  assumes "CHR ''.'' \<notin> set zs"
  shows "rev (takeWhile (\<lambda>c. c \<noteq> CHR ''.'') (rev (ys @ CHR ''.'' # zs))) = zs"
proof -
  have "takeWhile (\<lambda>c. c \<noteq> CHR ''.'') (rev (ys @ CHR ''.'' # zs))
        = takeWhile (\<lambda>c. c \<noteq> CHR ''.'') (rev zs)"
    by (simp add: takeWhile_tail)
  also have "\<dots> = rev zs"
    using assms by (intro takeWhile_no_dot) simp
  finally have e: "takeWhile (\<lambda>c. c \<noteq> CHR ''.'') (rev (ys @ CHR ''.'' # zs)) = rev zs" .
  show ?thesis unfolding e by simp
qed

lemma replace_ext_spec: "replace_ext s = strip_extension_spec s"
proof (cases "CHR ''.'' \<in> set s")
  case True
  then obtain ys zs where s: "s = ys @ CHR ''.'' # zs" and nd: "CHR ''.'' \<notin> set zs"
    by (meson split_list_last)
  have ext: "rev (takeWhile (\<lambda>c. c \<noteq> CHR ''.'') (rev s)) = zs"
    unfolding s by (rule ext_of_split [OF nd])
  have spec: "strip_extension_spec s = (if zs \<noteq> [] \<and> CHR ''/'' \<notin> set zs then ys else s)"
    unfolding strip_extension_spec_def ext by (simp add: s)
  show ?thesis
  proof (cases "zs \<noteq> [] \<and> CHR ''/'' \<notin> set zs")
    case True
    with nd show ?thesis
      unfolding spec by (simp add: s replace_ext_match)
  next
    case False
    with nd have "replace_ext (ys @ CHR ''.'' # zs) = ys @ CHR ''.'' # zs"
      by (intro replace_ext_no_match) auto
    with False show ?thesis
      unfolding spec by (simp add: s)
  qed
next
  case False
  then have e: "takeWhile (\<lambda>c. c \<noteq> CHR ''.'') (rev s) = rev s"
    by (intro takeWhile_no_dot) simp
  have "strip_extension_spec s = s"
    unfolding strip_extension_spec_def e by simp
  with False show ?thesis
    by (simp add: replace_ext_no_dot)
qed

lemma collapse_in_run:
  "collapse_spec True s = collapse_spec False (dropWhile (\<lambda>c. \<not> is_ascii_alnum c) s)"
  by (induction s) auto

lemma replace_runs_spec:
  "replace_runs (\<lambda>c. \<not> is_ascii_alnum c) ''-'' s = collapse_spec False s"
proof (induction "\<lambda>c. \<not> is_ascii_alnum c" "''-''" s rule: replace_runs.induct)
  case 1
  show ?case by simp
next
  case (2 c cs)
  then show ?case by (simp add: collapse_in_run)
qed

lemma replace_runs_chars:
  "list_all (\<lambda>c. is_ascii_alnum c \<or> c = CHR ''-'')
     (replace_runs (\<lambda>c. \<not> is_ascii_alnum c) ''-'' s)"
proof (induction "\<lambda>c. \<not> is_ascii_alnum c" "''-''" s rule: replace_runs.induct)
  case 1
  show ?case by simp
next
  case (2 c cs)
  then show ?case by simp
qed

lemma toLowerCase_unit_slug:
  "is_ascii_alnum c \<or> c = CHR ''-'' \<Longrightarrow> is_slug_char (toLowerCase_unit c)"
  by (auto simp: is_ascii_alnum_def is_slug_char_def toLowerCase_unit_def Let_def)

lemma toLowerCase_slug:
  "list_all (\<lambda>c. is_ascii_alnum c \<or> c = CHR ''-'') s \<Longrightarrow> list_all is_slug_char (toLowerCase s)"
  by (induction s) (simp_all add: toLowerCase_def toLowerCase_unit_slug)

lemma toDocId_slug_spec: "toDocId (Some name) = slug_spec name"
  by (simp add: toDocId_def slug_spec_def replace_ext_spec replace_runs_spec)

text \<open>
  C10: for every filename, \<open>toDocId\<close> returns a string that begins with \<open>doc-\<close> and whose other
  characters are lowercase letters, digits and hyphens only; without an argument it returns
  \<open>doc-document\<close>.
\<close>

theorem toDocId_shape:
  "take 4 (toDocId (Some name)) = ''doc-'' \<and>
   list_all is_slug_char (drop 4 (toDocId (Some name))) \<and>
   toDocId None = ''doc-document''"
proof (intro conjI)
  show "take 4 (toDocId (Some name)) = ''doc-''"
    by (simp add: toDocId_def)
  show "list_all is_slug_char (drop 4 (toDocId (Some name)))"
    by (simp add: toDocId_def toLowerCase_slug replace_runs_chars)
  show "toDocId None = ''doc-document''"
    by code_simp
qed

text \<open>The same at a name with a space, a slash and two dots.\<close>

theorem toDocId_shape_witness:
  "toDocId (Some ''a b/c.d.E'') = ''doc-a-b-c-d'' \<and>
   take 4 ''doc-a-b-c-d'' = ''doc-'' \<and> list_all is_slug_char (drop 4 ''doc-a-b-c-d'')"
proof -
  have e: "toDocId (Some ''a b/c.d.E'') = ''doc-a-b-c-d''" by code_simp
  from toDocId_shape [of "''a b/c.d.E''"] show ?thesis unfolding e by simp
qed

section \<open>getBestText: the probing\<close>

lemma members_object:
  "members (JObj kvs) ks = Inr (map (map_of kvs) ks)"
  by (induction ks) simp_all

lemma opt_member_Some: "opt_member (Some v) k = get_prop v k"
  by (cases v) simp_all

lemma nested_field_chain:
  "opt_member (opt_member (Some d) ''data'') k = nested_field k d"
  by (cases "get_prop d ''data''") (simp_all add: nested_field_def opt_member_Some)

lemma candidates_object:
  "candidates (JObj kvs) = Inr (filter truthy (map (\<lambda>p. p (JObj kvs)) probes))"
  unfolding candidates_def nested_field_chain members_object probes_def
  by (simp add: top_field_def)

lemma first_present_filter:
  "first_present ps d = (case filter truthy (map (\<lambda>p. p d) ps) of [] \<Rightarrow> None | c # cs \<Rightarrow> c)"
  by (induction ps) simp_all

lemma truthy_Some: "truthy c \<Longrightarrow> \<exists>v. c = Some v"
  by (cases c) simp_all

lemma getBestText_object:
  "getBestText (Some (JObj kvs)) =
     (case first_present probes (JObj kvs) of
        Some v \<Rightarrow> String_js v
      | None \<Rightarrow> JSON_stringify (JObj kvs) 2)"
proof (cases "filter truthy (map (\<lambda>p. p (JObj kvs)) probes)")
  case Nil
  then show ?thesis
    by (simp add: getBestText_def candidates_object first_present_filter JSON_stringify_def)
next
  case (Cons c cs)
  then have "c \<in> set (filter truthy (map (\<lambda>p. p (JObj kvs)) probes))" by simp
  then have "truthy c" by simp
  then obtain v where "c = Some v" using truthy_Some by blast
  with Cons show ?thesis
    by (simp add: getBestText_def candidates_object first_present_filter)
qed

lemma map_of_remove_key:
  "map_of (remove_key k kvs) k' = (if k' = k then None else map_of kvs k')"
  by (induction kvs) (auto simp: remove_key_def)

lemma filter_truthy_cong:
  "(\<And>p. p \<in> set ps \<Longrightarrow> f p = g p \<or> (\<not> truthy (f p) \<and> \<not> truthy (g p))) \<Longrightarrow>
   filter truthy (map f ps) = filter truthy (map g ps)"
proof (induction ps)
  case Nil
  show ?case by simp
next
  case (Cons a ps)
  have head: "f a = g a \<or> (\<not> truthy (f a) \<and> \<not> truthy (g a))"
    using Cons.prems [of a] by simp
  have "filter truthy (map f ps) = filter truthy (map g ps)"
    using Cons.prems by (intro Cons.IH) simp
  with head show ?case by auto
qed

lemma falsy_skipped:
  assumes "map_of kvs k = Some v" "v = JNum 0 \<or> v = JBool False"
  shows "candidates (JObj kvs) = candidates (JObj (remove_key k kvs))"
proof -
  have "filter truthy (map (\<lambda>p. p (JObj kvs)) probes)
      = filter truthy (map (\<lambda>p. p (JObj (remove_key k kvs))) probes)"
  proof (rule filter_truthy_cong)
    fix p assume "p \<in> set probes"
    then consider k' where "p = top_field k'" | k' where "p = nested_field k'"
      by (auto simp: probes_def)
    then show "p (JObj kvs) = p (JObj (remove_key k kvs))
               \<or> (\<not> truthy (p (JObj kvs)) \<and> \<not> truthy (p (JObj (remove_key k kvs))))"
    proof cases
      case 1
      with assms show ?thesis
        by (auto simp: top_field_def map_of_remove_key)
    next
      case 2
      with assms show ?thesis
        by (auto simp: nested_field_def map_of_remove_key)
    qed
  qed
  then show ?thesis by (simp only: candidates_object)
qed

lemma falsy_skipped_nested:
  assumes "map_of inner k = Some v" "v = JNum 0 \<or> v = JBool False"
  shows "candidates (JObj ((''data'', JObj inner) # rest))
       = candidates (JObj ((''data'', JObj (remove_key k inner)) # rest))"
proof -
  have "filter truthy (map (\<lambda>p. p (JObj ((''data'', JObj inner) # rest))) probes)
      = filter truthy (map (\<lambda>p. p (JObj ((''data'', JObj (remove_key k inner)) # rest))) probes)"
  proof (rule filter_truthy_cong)
    fix p assume "p \<in> set probes"
    then consider k' where "p = top_field k'" "k' \<noteq> ''data''" | k' where "p = nested_field k'"
      by (auto simp: probes_def)
    then show "p (JObj ((''data'', JObj inner) # rest))
                 = p (JObj ((''data'', JObj (remove_key k inner)) # rest))
               \<or> (\<not> truthy (p (JObj ((''data'', JObj inner) # rest)))
                  \<and> \<not> truthy (p (JObj ((''data'', JObj (remove_key k inner)) # rest))))"
    proof cases
      case 1
      then show ?thesis by (simp add: top_field_def)
    next
      case 2
      with assms show ?thesis
        by (auto simp: nested_field_def map_of_remove_key)
    qed
  qed
  then show ?thesis by (simp only: candidates_object)
qed

lemma String_js_total:
  "no_own_toString v \<Longrightarrow> \<exists>s. String_js v = Inr s"
  "list_all no_own_toString xs \<Longrightarrow> \<exists>s. join_elements xs = Inr s"
  by (induction v and xs rule: String_js_join_elements.induct) auto

lemma map_of_no_own_toString:
  "list_all (\<lambda>p. no_own_toString (snd p)) kvs \<Longrightarrow> map_of kvs k = Some v \<Longrightarrow> no_own_toString v"
  by (induction kvs) (auto split: if_splits)

lemma get_prop_no_own_toString:
  "no_own_toString d \<Longrightarrow> get_prop d k = Some v \<Longrightarrow> no_own_toString v"
  by (cases d) (auto dest: map_of_no_own_toString)

lemma first_present_probe:
  "first_present ps d = Some c \<Longrightarrow> \<exists>p\<in>set ps. p d = Some c"
  by (induction ps) (auto split: if_splits)

lemma probes_no_own_toString:
  assumes "p \<in> set probes" "p d = Some c" "no_own_toString d"
  shows "no_own_toString c"
proof -
  from assms(1) consider k' where "p = top_field k'" | k' where "p = nested_field k'"
    by (auto simp: probes_def)
  then show ?thesis
  proof cases
    case 1
    with assms show ?thesis by (auto simp: top_field_def dest: get_prop_no_own_toString)
  next
    case 2
    with assms show ?thesis
      by (auto simp: nested_field_def split: option.splits dest: get_prop_no_own_toString)
  qed
qed

lemma candidates_not_object:
  "candidates (JBool b) = Inr []" "candidates (JNum n) = Inr []"
  "candidates (JStr s) = Inr []" "candidates (JArr xs) = Inr []"
  by (simp_all add: candidates_def)

lemma getBestText_total_without_toString:
  assumes "no_own_toString v"
  shows "\<exists>s. getBestText (Some v) = Inr s"
proof (cases v)
  case (JObj kvs)
  show ?thesis
  proof (cases "first_present probes (JObj kvs)")
    case None
    then show ?thesis unfolding JObj getBestText_object by (simp add: JSON_stringify_def)
  next
    case (Some c)
    then obtain p where "p \<in> set probes" "p (JObj kvs) = Some c"
      using first_present_probe by blast
    with assms JObj have "no_own_toString c"
      using probes_no_own_toString by blast
    then obtain s where "String_js c = Inr s" using String_js_total(1) by blast
    with Some show ?thesis unfolding JObj getBestText_object by simp
  qed
qed (simp_all add: getBestText_def candidates_not_object JSON_stringify_def)

lemma getBestText_absent_or_string:
  "getBestText None = Inr [] \<and> getBestText (Some JNull) = Inr [] \<and> getBestText (Some (JStr s)) = Inr s"
  by (simp add: getBestText_def)

text \<open>
  C1, as the code has it: for every JSON object, \<open>getBestText\<close> probes, in this order, the fields
  \<open>answer\<close>, \<open>output\<close>, \<open>message\<close>, \<open>text\<close>, \<open>result\<close> of the object and then the fields \<open>answer\<close>,
  \<open>output\<close>, \<open>message\<close> (not \<open>text\<close>, not \<open>result\<close>) one level under \<open>data\<close>, and returns \<open>String\<close> of
  the first value that is present and truthy; when there is none it returns the JSON text of
  the object. \<open>{answer:"a", output:"b"}\<close> gives \<open>a\<close> and \<open>{data:{answer:"z"}}\<close> gives \<open>z\<close>.
\<close>

theorem getBestText_probes:
  "getBestText (Some (JObj kvs)) =
     (case first_present probes (JObj kvs) of
        Some v \<Rightarrow> String_js v
      | None \<Rightarrow> JSON_stringify (JObj kvs) 2) \<and>
   getBestText (Some (JObj [(''answer'', JStr ''a''), (''output'', JStr ''b'')])) = Inr ''a'' \<and>
   getBestText (Some (JObj [(''data'', JObj [(''answer'', JStr ''z'')])])) = Inr ''z''"
proof (intro conjI)
  show "getBestText (Some (JObj kvs)) =
     (case first_present probes (JObj kvs) of
        Some v \<Rightarrow> String_js v
      | None \<Rightarrow> JSON_stringify (JObj kvs) 2)"
    by (rule getBestText_object)
  show "getBestText (Some (JObj [(''answer'', JStr ''a''), (''output'', JStr ''b'')])) = Inr ''a''"
    by code_simp
  show "getBestText (Some (JObj [(''data'', JObj [(''answer'', JStr ''z'')])])) = Inr ''z''"
    by code_simp
qed

text \<open>
  At \<open>{text: 0, result: "r", data: {answer: "z"}}\<close> the field \<open>text\<close> is skipped and \<open>result\<close> is
  taken before \<open>data.answer\<close>.
\<close>

theorem getBestText_probes_witness:
  "first_present probes
     (JObj [(''text'', JNum 0), (''result'', JStr ''r''), (''data'', JObj [(''answer'', JStr ''z'')])])
     = Some (JStr ''r'') \<and>
   getBestText
     (Some (JObj [(''text'', JNum 0), (''result'', JStr ''r''), (''data'', JObj [(''answer'', JStr ''z'')])]))
     = Inr ''r''"
proof -
  have f: "first_present probes
     (JObj [(''text'', JNum 0), (''result'', JStr ''r''), (''data'', JObj [(''answer'', JStr ''z'')])])
     = Some (JStr ''r'')"
    by code_simp
  from getBestText_probes
         [of "[(''text'', JNum 0), (''result'', JStr ''r''), (''data'', JObj [(''answer'', JStr ''z'')])]"]
  show ?thesis unfolding f by simp
qed

text \<open>
  C1 as stated fails: an object whose only candidate field is \<open>data.text\<close>, or \<open>data.result\<close>,
  gives the JSON text of the whole object, not the value of that field.
\<close>

theorem nested_text_counterexample:
  "getBestText (Some (JObj [(''data'', JObj [(''text'', JStr ''t'')])]))
     = JSON_stringify (JObj [(''data'', JObj [(''text'', JStr ''t'')])]) 2 \<and>
   getBestText (Some (JObj [(''data'', JObj [(''text'', JStr ''t'')])])) \<noteq> Inr ''t'' \<and>
   getBestText (Some (JObj [(''data'', JObj [(''result'', JStr ''r'')])]))
     = JSON_stringify (JObj [(''data'', JObj [(''result'', JStr ''r'')])]) 2 \<and>
   getBestText (Some (JObj [(''data'', JObj [(''result'', JStr ''r'')])])) \<noteq> Inr ''r''"
  by code_simp

text \<open>
  C9: the number 0 and the boolean \<open>false\<close> at the top level give the empty string, not their
  JSON texts \<open>0\<close> and \<open>false\<close>; and a field that holds 0 or \<open>false\<close>, in the object or one level
  under \<open>data\<close>, leaves the candidates as they are without the field.
\<close>

theorem falsy_values_skipped:
  "getBestText (Some (JNum 0)) = Inr [] \<and> JSON_stringify (JNum 0) 2 = Inr ''0'' \<and>
   getBestText (Some (JBool False)) = Inr [] \<and> JSON_stringify (JBool False) 2 = Inr ''false'' \<and>
   (map_of kvs k = Some v \<and> (v = JNum 0 \<or> v = JBool False) \<longrightarrow>
      candidates (JObj kvs) = candidates (JObj (remove_key k kvs))) \<and>
   (map_of inner k = Some v \<and> (v = JNum 0 \<or> v = JBool False) \<longrightarrow>
      candidates (JObj ((''data'', JObj inner) # rest))
        = candidates (JObj ((''data'', JObj (remove_key k inner)) # rest)))"
proof (intro conjI impI)
  show "getBestText (Some (JNum 0)) = Inr []" by (simp add: getBestText_def)
  show "getBestText (Some (JBool False)) = Inr []" by (simp add: getBestText_def)
  show "JSON_stringify (JNum 0) 2 = Inr ''0''" by code_simp
  show "JSON_stringify (JBool False) 2 = Inr ''false''" by code_simp
  show "candidates (JObj kvs) = candidates (JObj (remove_key k kvs))"
    if "map_of kvs k = Some v \<and> (v = JNum 0 \<or> v = JBool False)"
    using that falsy_skipped by blast
  show "candidates (JObj ((''data'', JObj inner) # rest))
        = candidates (JObj ((''data'', JObj (remove_key k inner)) # rest))"
    if "map_of inner k = Some v \<and> (v = JNum 0 \<or> v = JBool False)"
    using that falsy_skipped_nested by blast
qed

text \<open>
  At \<open>{answer: 0, output: "b"}\<close> and at \<open>{data: {answer: false, output: "b"}}\<close> the falsy field is
  passed over and \<open>b\<close> is returned.
\<close>

theorem falsy_values_skipped_witness:
  "candidates (JObj [(''answer'', JNum 0), (''output'', JStr ''b'')])
     = candidates (JObj [(''output'', JStr ''b'')]) \<and>
   getBestText (Some (JObj [(''answer'', JNum 0), (''output'', JStr ''b'')])) = Inr ''b'' \<and>
   candidates (JObj [(''data'', JObj [(''answer'', JBool False), (''output'', JStr ''b'')])])
     = candidates (JObj [(''data'', JObj [(''output'', JStr ''b'')])]) \<and>
   getBestText (Some (JObj [(''data'', JObj [(''answer'', JBool False), (''output'', JStr ''b'')])]))
     = Inr ''b''"
proof -
  have a: "map_of [(''answer'', JNum 0), (''output'', JStr ''b'')] ''answer'' = Some (JNum 0)"
    and b: "map_of [(''answer'', JBool False), (''output'', JStr ''b'')] ''answer'' = Some (JBool False)"
    and c: "remove_key ''answer'' [(''answer'', JNum 0), (''output'', JStr ''b'')]
              = [(''output'', JStr ''b'')]"
    and d: "remove_key ''answer'' [(''answer'', JBool False), (''output'', JStr ''b'')]
              = [(''output'', JStr ''b'')]"
    by (simp_all add: remove_key_def)
  have e: "getBestText (Some (JObj [(''answer'', JNum 0), (''output'', JStr ''b'')])) = Inr ''b''"
    by code_simp
  have f: "getBestText (Some (JObj [(''data'', JObj [(''answer'', JBool False), (''output'', JStr ''b'')])]))
              = Inr ''b''"
    by code_simp
  from falsy_values_skipped
         [of "[(''answer'', JNum 0), (''output'', JStr ''b'')]" "''answer''" "JNum 0"
             "[(''answer'', JBool False), (''output'', JStr ''b'')]" "[]"]
       a c
  have g: "candidates (JObj [(''answer'', JNum 0), (''output'', JStr ''b'')])
             = candidates (JObj [(''output'', JStr ''b'')])"
    by simp
  from falsy_values_skipped
         [of "[]" "''answer''" "JBool False"
             "[(''answer'', JBool False), (''output'', JStr ''b'')]" "[]"]
       b d
  have h: "candidates (JObj [(''data'', JObj [(''answer'', JBool False), (''output'', JStr ''b'')])])
             = candidates (JObj [(''data'', JObj [(''output'', JStr ''b'')])])"
    by simp
  from e f g h show ?thesis by simp
qed

text \<open>
  C5 at the input \<open>{"answer": {"toString": 1}}\<close>: the candidate is an object with an own
  property \<open>toString\<close>, \<open>String(cands[0])\<close> throws a TypeError outside the \<open>try\<close> block, and
  \<open>getBestText\<close> throws instead of returning a string. On every value without such a property
  it does return a string (\<open>getBestText_total_without_toString\<close>).
\<close>

theorem getBestText_throws_on_own_toString:
  "getBestText (Some (JObj [(''answer'', JObj [(''toString'', JNum 1)])]))
     = Inl (TypeError ''Cannot convert object to primitive value'')"
  by code_simp

section \<open>The handlers\<close>

lemma trim_blank: "list_all is_white_space s \<Longrightarrow> trim s = []"
proof -
  assume "list_all is_white_space s"
  then have e: "dropWhile is_white_space s = []" by (simp add: list_all_iff)
  show ?thesis unfolding trim_def e by simp
qed

text \<open>
  C8: the ask handler called with a question that is empty or holds white space only does
  nothing: it issues no call and returns the state as it was, the earlier answer and the
  earlier raw response included.
\<close>

theorem handleAsk_blank_noop:
  "list_all is_white_space (question st) \<Longrightarrow> handleAsk srv st = (st, [])"
  by (simp add: handleAsk_def trim_blank)

text \<open>
  The same at a question made of a space, a tab and a line feed.
\<close>

theorem handleAsk_blank_noop_witness:
  "list_all is_white_space (question (session\<lparr>question := [CHR '' '', CHR 0x09, CHR 0x0A]\<rparr>)) \<and>
   handleAsk (server hello_reply failure) (session\<lparr>question := [CHR '' '', CHR 0x09, CHR 0x0A]\<rparr>)
     = (session\<lparr>question := [CHR '' '', CHR 0x09, CHR 0x0A]\<rparr>, [])"
proof -
  have h: "list_all is_white_space (question (session\<lparr>question := [CHR '' '', CHR 0x09, CHR 0x0A]\<rparr>))"
    by (simp add: is_white_space_def)
  from h handleAsk_blank_noop [OF h] show ?thesis by simp
qed

lemma handleUpload_try_no_index:
  assumes "fetch_upload srv f = Inr data"
    and "\<not> autoIndex st \<or> list_all is_white_space (or_string (reply_text data) [])"
  shows "handleUpload_try srv f st =
           (None, st\<lparr>extracted := or_string (reply_text data) [],
                     lastFilename := or_string (reply_filename data) (file_name f)\<rparr>, [PostUpload f])"
  using assms by (auto simp: handleUpload_try_def trim_blank)

text \<open>
  C7: after a successful extraction, when the auto-index toggle is off, or the extracted text is
  empty or holds white space only, the only call issued is the one of \<open>/upload\<close> (no indexing
  call) and the indexed count is unchanged.
\<close>

theorem upload_without_index:
  assumes "selectedFile st = Some f"
    and "fetch_upload srv f = Inr data"
    and "\<not> autoIndex st \<or> list_all is_white_space (or_string (reply_text data) [])"
  shows "snd (handleUpload srv st) = [PostUpload f] \<and>
         indexedCount (fst (handleUpload srv st)) = indexedCount st"
proof -
  have "handleUpload_try srv f (st\<lparr>uploading := True, extracted := [], answer := [], raw := JNull\<rparr>)
        = (None, st\<lparr>uploading := True, extracted := [], answer := [], raw := JNull,
                     extracted := or_string (reply_text data) [],
                     lastFilename := or_string (reply_filename data) (file_name f)\<rparr>, [PostUpload f])"
    using assms(2,3) by (intro handleUpload_try_no_index) simp_all
  with assms(1) show ?thesis by (simp add: handleUpload_def)
qed

lemma fetch_upload_hello: "fetch_upload (server hello_reply ix) f
   = Inr \<lparr>reply_text = Some ''hello'', reply_filename = Some ''Report v1.pdf''\<rparr>"
  by (simp add: fetch_upload_def server_def hello_reply_def)

lemma fetch_upload_blank: "fetch_upload (server blank_reply ix) f
   = Inr \<lparr>reply_text = Some ''  '', reply_filename = Some ''Report v1.pdf''\<rparr>"
  by (simp add: fetch_upload_def server_def blank_reply_def)

text \<open>
  The same with the toggle off and the text \<open>hello\<close>, and with the toggle on and a text of two
  spaces.
\<close>

theorem upload_without_index_witness:
  "snd (handleUpload (server hello_reply (upserted_reply (Some 1))) (session\<lparr>autoIndex := False\<rparr>))
     = [PostUpload report_pdf] \<and>
   indexedCount (fst (handleUpload (server hello_reply (upserted_reply (Some 1)))
                        (session\<lparr>autoIndex := False\<rparr>))) = JNum (Fin 3) \<and>
   snd (handleUpload (server blank_reply (upserted_reply (Some 1))) session) = [PostUpload report_pdf] \<and>
   indexedCount (fst (handleUpload (server blank_reply (upserted_reply (Some 1))) session))
     = JNum (Fin 3)"
proof -
  have a: "selectedFile (session\<lparr>autoIndex := False\<rparr>) = Some report_pdf"
    and b: "selectedFile session = Some report_pdf"
    and c: "\<not> autoIndex (session\<lparr>autoIndex := False\<rparr>)"
    and i: "indexedCount session = JNum (Fin 3)"
    by (simp_all add: session_def)
  have d: "list_all is_white_space
             (or_string (reply_text \<lparr>reply_text = Some ''  '', reply_filename = Some ''Report v1.pdf''\<rparr>) [])"
    by (simp add: or_string_def is_white_space_def)
  from upload_without_index [OF a fetch_upload_hello, of "upserted_reply (Some 1)"] c
       upload_without_index [OF b fetch_upload_blank, of "upserted_reply (Some 1)"] d i
  show ?thesis by simp
qed

lemma handleUpload_try_indexed:
  assumes "fetch_upload srv f = Inr data" "autoIndex st"
    and "trim (or_string (reply_text data) []) \<noteq> []"
  shows "handleUpload_try srv f st =
     (case fetch_index srv (index_items data f) of
        Inl e \<Rightarrow> (Some e, st\<lparr>extracted := or_string (reply_text data) [],
                     lastFilename := or_string (reply_filename data) (file_name f)\<rparr>,
                  [PostUpload f, PostIndex (index_items data f)])
      | Inr j \<Rightarrow>
          (case index_updater j (index_items data f) (indexedCount st) of
             Inl e \<Rightarrow> (None, st\<lparr>extracted := or_string (reply_text data) [],
                     lastFilename := or_string (reply_filename data) (file_name f),
                     uncaught := Some e\<rparr>,
                  [PostUpload f, PostIndex (index_items data f)])
           | Inr c \<Rightarrow> (None, st\<lparr>extracted := or_string (reply_text data) [],
                     lastFilename := or_string (reply_filename data) (file_name f),
                     indexedCount := c\<rparr>,
                  [PostUpload f, PostIndex (index_items data f)])))"
  using assms by (simp add: handleUpload_try_def split: sum.splits)

lemma handleUpload_indexed:
  assumes "selectedFile st = Some f"
    and "fetch_upload srv f = Inr data"
    and "autoIndex st"
    and "trim (or_string (reply_text data) []) \<noteq> []"
  shows "handleUpload srv st =
     (case fetch_index srv (index_items data f) of
        Inl e \<Rightarrow>
          (st\<lparr>uploading := False, answer := [], raw := JNull,
              lastFilename := or_string (reply_filename data) (file_name f),
              extracted := warning_marker @ message e\<rparr>,
           [PostUpload f, PostIndex (index_items data f)])
      | Inr j \<Rightarrow>
          (case index_updater j (index_items data f) (indexedCount st) of
             Inl e \<Rightarrow>
               (st\<lparr>uploading := False, answer := [], raw := JNull,
                   lastFilename := or_string (reply_filename data) (file_name f),
                   extracted := or_string (reply_text data) [],
                   uncaught := Some e\<rparr>,
                [PostUpload f, PostIndex (index_items data f)])
           | Inr c \<Rightarrow>
               (st\<lparr>uploading := False, answer := [], raw := JNull,
                   lastFilename := or_string (reply_filename data) (file_name f),
                   extracted := or_string (reply_text data) [],
                   indexedCount := c\<rparr>,
                [PostUpload f, PostIndex (index_items data f)])))"
proof -
  have "handleUpload_try srv f (st\<lparr>uploading := True, extracted := [], answer := [], raw := JNull\<rparr>)
        = (case fetch_index srv (index_items data f) of
             Inl e \<Rightarrow> (Some e, st\<lparr>uploading := True, extracted := [], answer := [], raw := JNull,
                       extracted := or_string (reply_text data) [],
                       lastFilename := or_string (reply_filename data) (file_name f)\<rparr>,
                       [PostUpload f, PostIndex (index_items data f)])
           | Inr j \<Rightarrow>
               (case index_updater j (index_items data f) (indexedCount st) of
                  Inl e \<Rightarrow> (None, st\<lparr>uploading := True, extracted := [], answer := [], raw := JNull,
                       extracted := or_string (reply_text data) [],
                       lastFilename := or_string (reply_filename data) (file_name f),
                       uncaught := Some e\<rparr>,
                       [PostUpload f, PostIndex (index_items data f)])
                | Inr c \<Rightarrow> (None, st\<lparr>uploading := True, extracted := [], answer := [], raw := JNull,
                       extracted := or_string (reply_text data) [],
                       lastFilename := or_string (reply_filename data) (file_name f),
                       indexedCount := c\<rparr>,
                       [PostUpload f, PostIndex (index_items data f)])))"
    using assms(2-4)
    by (subst handleUpload_try_indexed [where data = data]) (simp_all split: sum.splits)
  with assms(1) show ?thesis by (simp add: handleUpload_def split: sum.splits)
qed

lemma handleUpload_indexed_calls:
  assumes "selectedFile st = Some f"
    and "fetch_upload srv f = Inr data"
    and "autoIndex st"
    and "trim (or_string (reply_text data) []) \<noteq> []"
  shows "snd (handleUpload srv st) = [PostUpload f, PostIndex (index_items data f)]"
  unfolding handleUpload_indexed [OF assms] by (simp split: sum.splits)

text \<open>
  C3, as the code has it: when the indexing call fails after the extraction succeeded, the
  handler ends with the busy flag cleared, the indexed count unchanged, the filename stored,
  and the extracted-text field holding the warning marker and the message of the error: the
  extracted text is not displayed any more.
\<close>

theorem index_failure_surfaced:
  assumes "selectedFile st = Some f"
    and "fetch_upload srv f = Inr data"
    and "autoIndex st"
    and "trim (or_string (reply_text data) []) \<noteq> []"
    and "fetch_index srv (index_items data f) = Inl e"
  shows "handleUpload srv st =
           (st\<lparr>uploading := False, answer := [], raw := JNull,
               lastFilename := or_string (reply_filename data) (file_name f),
               extracted := warning_marker @ message e\<rparr>,
            [PostUpload f, PostIndex (index_items data f)])"
  using handleUpload_indexed [OF assms(1-4)] assms(5) by simp










text \<open>
  A body \<open>null\<close> of \<open>/index\<close> makes the updater throw: the error is not caught by the handler
  and the count stays as it was.
\<close>

lemma index_updater_null:
  "index_updater JNull items c
     = Inl (TypeError (''Cannot read properties of null (reading '' @ [CHR 0x27] @ ''upserted''
                       @ [CHR 0x27] @ '')''))"
  by (simp add: index_updater_def)


text \<open>
  C2, as the code has it: on a response whose status is not a success, \<open>uploadFile\<close>,
  \<open>indexItems\<close> and \<open>ask\<close> of the gateway module fail with an \<open>Error\<close> whose message is the text of
  the body of the response; the calls of \<open>/upload\<close> and \<open>/index\<close> of the upload handler fail with
  an \<open>Error\<close> whose message is \<open>Upload failed:\<close> or \<open>Index failed:\<close> followed by the status.
\<close>

theorem gateway_failures:
  "(upload_ep srv f = Inr r \<and> \<not> ok r \<longrightarrow>
      fst (uploadFile srv f) = Inl (Error (body_text r)) \<and>
      fetch_upload srv f = Inl (Error (''Upload failed: '' @ nat_digits (status r)))) \<and>
   (index_ep srv items = Inr ix \<and> \<not> ok ix \<longrightarrow>
      fst (indexItems srv items) = Inl (Error (body_text ix)) \<and>
      fetch_index srv items = Inl (Error (''Index failed: '' @ nat_digits (status ix)))) \<and>
   (ask_ep srv q None = Inr ra \<and> \<not> ok ra \<longrightarrow>
      fst (ask srv q) = Inl (Error (body_text ra)))"
  by (simp add: uploadFile_def indexItems_def ask_def fetch_upload_def fetch_index_def)



lemma fetch_index_failure:
  "fetch_index (server up failure) items = Inl (Error ''Index failed: 500'')"
proof -
  have "nat_digits 500 = ''500''" by code_simp
  then show ?thesis by (simp add: fetch_index_def server_def failure_def)
qed

lemma trim_hello:
  "trim (or_string (reply_text \<lparr>reply_text = Some ''hello'', reply_filename = Some ''Report v1.pdf''\<rparr>) []) \<noteq> []"
  by code_simp

lemma session_facts:
  "selectedFile session = Some report_pdf" "autoIndex session"
  "indexedCount session = JNum (Fin 3)"
  by (simp_all add: session_def)

text \<open>
  The same at an extraction that gives \<open>hello\<close> and an indexing call answered with status 500.
\<close>

theorem index_failure_surfaced_witness:
  "extracted (fst (handleUpload (server hello_reply failure) session))
     = warning_marker @ ''Index failed: 500'' \<and>
   indexedCount (fst (handleUpload (server hello_reply failure) session)) = JNum (Fin 3) \<and>
   lastFilename (fst (handleUpload (server hello_reply failure) session)) = ''Report v1.pdf'' \<and>
   \<not> uploading (fst (handleUpload (server hello_reply failure) session))"
  using index_failure_surfaced [OF session_facts(1) fetch_upload_hello session_facts(2) trim_hello
          fetch_index_failure]
  by (simp add: session_facts or_string_def)

text \<open>
  C3 as stated fails: the extraction gives \<open>hello\<close>, the indexing call is answered with status
  500, and the extracted-text field does not hold \<open>hello\<close> at the end.
\<close>

theorem extracted_text_overwritten_counterexample:
  "fetch_upload (server hello_reply failure) report_pdf
     = Inr \<lparr>reply_text = Some ''hello'', reply_filename = Some ''Report v1.pdf''\<rparr> \<and>
   fetch_index (server hello_reply failure)
     (index_items \<lparr>reply_text = Some ''hello'', reply_filename = Some ''Report v1.pdf''\<rparr> report_pdf)
     = Inl (Error ''Index failed: 500'') \<and>
   extracted (fst (handleUpload (server hello_reply failure) session)) \<noteq> ''hello''"
  using handleUpload_indexed [OF session_facts(1) fetch_upload_hello session_facts(2) trim_hello,
          of failure]
  by (simp add: fetch_upload_hello fetch_index_failure warning_marker_def)



text \<open>
  A response of \<open>/index\<close> with status 200 and the body \<open>null\<close>: the updater throws, nothing
  catches the error, the count stays at 3 and the extracted text stays displayed.
\<close>

lemma null_index_body_uncaught:
  "uncaught (fst (handleUpload (server hello_reply null_reply) session))
     = Some (TypeError (''Cannot read properties of null (reading '' @ [CHR 0x27] @ ''upserted''
                        @ [CHR 0x27] @ '')'')) \<and>
   indexedCount (fst (handleUpload (server hello_reply null_reply) session)) = JNum (Fin 3) \<and>
   extracted (fst (handleUpload (server hello_reply null_reply) session)) = ''hello''"
proof -
  have "fetch_index (server hello_reply null_reply) items = Inr JNull" for items
    by (simp add: fetch_index_def server_def null_reply_def)
  with handleUpload_indexed [OF session_facts(1) fetch_upload_hello session_facts(2) trim_hello,
          of null_reply]
  show ?thesis
    by (simp add: index_updater_null session_facts or_string_def)
qed

text \<open>
  The same at responses with status 500 and the body \<open>boom\<close>.
\<close>

theorem gateway_failures_witness:
  "fst (uploadFile (server failure failure) report_pdf) = Inl (Error ''boom'') \<and>
   fetch_upload (server failure failure) report_pdf = Inl (Error ''Upload failed: 500'') \<and>
   fst (indexItems (server failure failure) []) = Inl (Error ''boom'') \<and>
   fetch_index (server failure failure) [] = Inl (Error ''Index failed: 500'') \<and>
   fst (ask (server failure failure) ''When?'') = Inl (Error (body_text failure_json))"
proof -
  have d: "nat_digits 500 = ''500''" by code_simp
  have u: "upload_ep (server failure failure) report_pdf = Inr failure \<and> \<not> ok (failure :: upload_reply response)"
    and i: "index_ep (server failure failure) [] = Inr failure \<and> \<not> ok (failure :: json response)"
    and a: "ask_ep (server failure failure) ''When?'' None = Inr failure_json \<and> \<not> ok failure_json"
    by (simp_all add: server_def failure_def failure_json_def)
  from gateway_failures [of "server failure failure" report_pdf failure "[]" failure "''When?''" failure_json]
       u i a
  have "fst (uploadFile (server failure failure) report_pdf) = Inl (Error (body_text (failure :: upload_reply response))) \<and>
        fetch_upload (server failure failure) report_pdf
          = Inl (Error (''Upload failed: '' @ nat_digits (status (failure :: upload_reply response)))) \<and>
        fst (indexItems (server failure failure) []) = Inl (Error (body_text (failure :: json response))) \<and>
        fetch_index (server failure failure) []
          = Inl (Error (''Index failed: '' @ nat_digits (status (failure :: json response)))) \<and>
        fst (ask (server failure failure) ''When?'') = Inl (Error (body_text failure_json))"
    by blast
  moreover have "body_text (failure :: upload_reply response) = ''boom''"
    "body_text (failure :: json response) = ''boom''"
    "status (failure :: upload_reply response) = 500"
    "status (failure :: json response) = 500"
    by (simp_all add: failure_def)
  ultimately show ?thesis by (simp add: d)
qed

text \<open>
  C2 as stated fails: the call of \<open>/upload\<close> of the upload handler, answered with status 500 and
  the body \<open>boom\<close>, fails with the message \<open>Upload failed: 500\<close>, which is not the body.
\<close>

theorem status_not_body_counterexample:
  "upload_ep (server failure failure) report_pdf = Inr failure \<and>
   \<not> ok (failure :: upload_reply response) \<and>
   body_text (failure :: upload_reply response) = ''boom'' \<and>
   fetch_upload (server failure failure) report_pdf = Inl (Error ''Upload failed: 500'') \<and>
   fetch_upload (server failure failure) report_pdf \<noteq> Inl (Error ''boom'')"
proof -
  have d: "nat_digits 500 = ''500''" by code_simp
  show ?thesis by (simp add: fetch_upload_def server_def failure_def d)
qed

text \<open>
  The ask handler does not read \<open>r.ok\<close>: a response of \<open>/ask\<close> with status 500 and a JSON body is
  parsed and returned like a successful one.
\<close>

lemma fetch_answer_ignores_status:
  "ask_ep (server failure failure) (trim ''When?'') (Some (JObj [])) = Inr failure_json \<and>
   \<not> ok failure_json \<and>
   fetch_answer (server failure failure) Pipeline ''When?'' = Inr (JObj [(''detail'', JStr ''boom'')])"
  by (simp add: fetch_answer_def server_def failure_json_def)

text \<open>
  C6: the id of the index item that the upload workflow sends is a function of the filename
  alone (the filename of the extraction, or the name of the selected file when the
  extraction gives none): the extension is stripped, every run of non-alphanumeric characters
  becomes one hyphen, the result is lowercased and prefixed with \<open>doc-\<close>. The filename
  \<open>Report v1.pdf\<close> gives the id \<open>doc-report-v1\<close>.
\<close>

theorem index_item_id_slug:
  "map item_id (index_items data f) = [slug_spec (or_string (reply_filename data) (file_name f))] \<and>
   (selectedFile st = Some f \<and> fetch_upload srv f = Inr data \<and> autoIndex st \<and>
    trim (or_string (reply_text data) []) \<noteq> [] \<longrightarrow>
      snd (handleUpload srv st) = [PostUpload f, PostIndex (index_items data f)]) \<and>
   toDocId (Some name) = slug_spec name \<and>
   toDocId (Some ''Report v1.pdf'') = ''doc-report-v1''"
proof (intro conjI impI)
  show "map item_id (index_items data f)
          = [slug_spec (or_string (reply_filename data) (file_name f))]"
    by (simp add: index_items_def toDocId_slug_spec)
  show "snd (handleUpload srv st) = [PostUpload f, PostIndex (index_items data f)]"
    if "selectedFile st = Some f \<and> fetch_upload srv f = Inr data \<and> autoIndex st \<and>
        trim (or_string (reply_text data) []) \<noteq> []"
    using that handleUpload_indexed_calls by blast
  show "toDocId (Some name) = slug_spec name"
    by (rule toDocId_slug_spec)
  show "toDocId (Some ''Report v1.pdf'') = ''doc-report-v1''"
    by code_simp
qed

text \<open>
  The extraction gives \<open>{text: "hello", filename: "Report v1.pdf"}\<close> with auto-index on: the
  indexing call carries one item, whose id is \<open>doc-report-v1\<close>.
\<close>

theorem index_item_id_slug_witness:
  "snd (handleUpload (server hello_reply (upserted_reply (Some 1))) session)
     = [PostUpload report_pdf,
        PostIndex [\<lparr>item_id = ''doc-report-v1'', item_text = Some ''hello'',
                    meta_filename = ''Report v1.pdf'', meta_source = ''upload''\<rparr>]] \<and>
   slug_spec ''Report v1.pdf'' = ''doc-report-v1''"
proof -
  have slug: "slug_spec ''Report v1.pdf'' = ''doc-report-v1''"
    by code_simp
  have items: "index_items \<lparr>reply_text = Some ''hello'', reply_filename = Some ''Report v1.pdf''\<rparr> report_pdf
      = [\<lparr>item_id = ''doc-report-v1'', item_text = Some ''hello'',
           meta_filename = ''Report v1.pdf'', meta_source = ''upload''\<rparr>]"
    using index_item_id_slug
            [of "\<lparr>reply_text = Some ''hello'', reply_filename = Some ''Report v1.pdf''\<rparr>" report_pdf]
    by (simp add: index_items_def or_string_def slug)
  from index_item_id_slug
         [of "\<lparr>reply_text = Some ''hello'', reply_filename = Some ''Report v1.pdf''\<rparr>" report_pdf
             session "server hello_reply (upserted_reply (Some 1))"]
       session_facts(1,2) fetch_upload_hello [of "upserted_reply (Some 1)" report_pdf] trim_hello
  have "snd (handleUpload (server hello_reply (upserted_reply (Some 1))) session)
          = [PostUpload report_pdf,
             PostIndex (index_items \<lparr>reply_text = Some ''hello'', reply_filename = Some ''Report v1.pdf''\<rparr>
                          report_pdf)]"
    by simp
  then show ?thesis unfolding items using slug by simp
qed

end
